theory Spec2Isabelle
  imports Main "HOL-Library.Multiset"
begin

section \<open>Python values, header dictionaries, exceptions\<close>

text \<open>
  The five source files build the \<open>headers\<close> dictionary that is handed to
  \<open>requests.post\<close>. The request itself is outside the repository; every
  \<open>get_text\<close> below returns the dictionary it would send.

  Header values are Python booleans, integers and strings. A dictionary is a map from
  keys to values; Python compares dictionaries without regard to insertion order.
\<close>

datatype pyval = PyBool bool | PyInt int | PyStr string

type_synonym headers = "string \<rightharpoonup> pyval"

datatype error = TypeError string | ValueError string

text \<open>
  \<open>isinstance(v, int)\<close> holds for integers and for booleans (\<open>bool\<close> is a subclass
  of \<open>int\<close>, with \<open>False == 0\<close> and \<open>True == 1\<close>). \<open>as_int v\<close> is the integer
  a value counts as, or \<open>None\<close> when \<open>isinstance(v, int)\<close> is false.
\<close>

fun as_int :: "pyval \<Rightarrow> int option" where
  "as_int (PyInt n) = Some n"
| "as_int (PyBool b) = Some (if b then 1 else 0)"
| "as_int (PyStr s) = None"

text \<open>\<open>v == k\<close> for an integer literal \<open>k\<close>, and \<open>v in [k1, ..., kn]\<close>.\<close>

definition py_eq_int :: "pyval \<Rightarrow> int \<Rightarrow> bool" where
  "py_eq_int v k = (as_int v = Some k)"

definition py_in :: "pyval \<Rightarrow> int list \<Rightarrow> bool" where
  "py_in v ks = list_ex (py_eq_int v) ks"

text \<open>The statement \<open>if c: headers[k] = v\<close>.\<close>

definition set_if :: "bool \<Rightarrow> string \<Rightarrow> pyval \<Rightarrow> headers \<Rightarrow> headers" where
  "set_if c k v h = (if c then h(k \<mapsto> v) else h)"


section \<open>1.simple.py\<close>

record simple_kwargs =
  simple_as_plain_text :: bool
  simple_with_ocr :: bool

definition simple_defaults :: simple_kwargs where
  "simple_defaults = \<lparr>simple_as_plain_text = True, simple_with_ocr = False\<rparr>"

definition get_text_simple :: "simple_kwargs \<Rightarrow> headers" where
  "get_text_simple kw =
     (let headers = Map.empty;
          headers = set_if (\<not> simple_with_ocr kw) ''SkipOCR'' (PyStr ''true'') headers;
          headers = set_if (simple_as_plain_text kw) ''Accept'' (PyStr ''text/plain'') headers
      in headers)"


section \<open>2.extend.py\<close>

text \<open>
  The keyword arguments of \<open>get_text\<close> with the defaults of its signature.
  \<open>extend_timeout = None\<close> is Python's \<open>None\<close>. \<open>timeout\<close> and \<open>rotate_angle\<close>
  are checked by the function at run time, so they are arbitrary Python values here.
\<close>

record extend_kwargs =
  extend_as_plain_text :: bool
  extend_with_ocr :: bool
  extend_timeout :: "pyval option"
  extend_with_bounding_boxes :: bool
  extend_inline_ocr :: bool
  extend_ocr_with_text :: bool
  extend_rotate_angle :: pyval
  extend_detect_tables :: bool

definition extend_defaults :: extend_kwargs where
  "extend_defaults =
     \<lparr>extend_as_plain_text = True, extend_with_ocr = False, extend_timeout = None,
      extend_with_bounding_boxes = False, extend_inline_ocr = False,
      extend_ocr_with_text = False, extend_rotate_angle = PyInt 0,
      extend_detect_tables = False\<rparr>"

definition get_text_extend :: "extend_kwargs \<Rightarrow> error + headers" where
  "get_text_extend kw =
     (let headers = Map.empty in
      case (case extend_timeout kw of
              None \<Rightarrow> Inr headers
            | Some t \<Rightarrow>
                (case as_int t of
                   None \<Rightarrow> Inl (TypeError ''Timeout must be an integer'')
                 | Some n \<Rightarrow>
                     if n \<le> 0 then Inl (ValueError ''Timeout must be positive'')
                     else Inr (headers(''timeout'' \<mapsto> t)))) of
        Inl e \<Rightarrow> Inl e
      | Inr headers \<Rightarrow>
          if \<not> py_in (extend_rotate_angle kw) [0, 90, 180, 270]
          then Inl (ValueError ''rotate_angle must be 0, 90, 180, or 270'')
          else
            (let headers = set_if (\<not> py_eq_int (extend_rotate_angle kw) 0)
                             ''rotate_angle'' (extend_rotate_angle kw) headers;
                 headers = set_if (extend_detect_tables kw)
                             ''detect_tables'' (PyBool True) headers;
                 headers = set_if (extend_with_bounding_boxes kw)
                             ''with_bounding_boxes'' (PyBool True) headers;
                 headers = set_if (extend_ocr_with_text kw)
                             ''ocr_with_text'' (PyBool True) headers;
                 headers = set_if (extend_as_plain_text kw)
                             ''as_plain_text'' (PyBool True) headers;
                 headers = set_if (\<not> extend_with_ocr kw)
                             ''SkipOCR'' (PyStr ''true'') headers;
                 headers = set_if (extend_inline_ocr kw)
                             ''inline_ocr'' (PyStr ''true'') headers;
                 headers = set_if (extend_as_plain_text kw)
                             ''Accept'' (PyStr ''text/plain'') headers
             in Inr headers))"


section \<open>3.config.py\<close>

text \<open>
  The fields of the model class with their declared types and defaults. The conversion
  of raw input to these types is done by the pydantic library before the field
  validators of the class run; the validators and \<open>to_headers\<close> are the repository's.
\<close>

record TextExtractionConfig =
  as_plain_text :: bool
  with_ocr :: bool
  timeout :: "int option"
  with_bounding_boxes :: bool
  inline_ocr :: bool
  ocr_with_text :: bool
  rotate_angle :: int
  detect_tables :: bool

definition TextExtractionConfig_defaults :: TextExtractionConfig where
  "TextExtractionConfig_defaults =
     \<lparr>as_plain_text = True, with_ocr = False, timeout = None,
      with_bounding_boxes = False, inline_ocr = False, ocr_with_text = False,
      rotate_angle = 0, detect_tables = False\<rparr>"

definition validate_timeout :: "int option \<Rightarrow> error + int option" where
  "validate_timeout val =
     (case val of
        None \<Rightarrow> Inr val
      | Some n \<Rightarrow> if n \<le> 0 then Inl (ValueError ''Timeout must be positive'') else Inr val)"

definition validate_rotate_angle :: "int \<Rightarrow> error + int" where
  "validate_rotate_angle val =
     (if \<not> list_ex (\<lambda>k. val = k) [0, 90, 180, 270]
      then Inl (ValueError ''rotate_angle must be 0, 90, 180, or 270'')
      else Inr val)"

text \<open>
  Constructing the model from candidate field values runs the two field validators, in
  the order of the fields; an exception of a validator makes the construction fail. The
  library reports the failure as its own validation error; the model keeps the exception
  the first failing validator raised.
\<close>

definition TextExtractionConfig_init :: "TextExtractionConfig \<Rightarrow> error + TextExtractionConfig" where
  "TextExtractionConfig_init data =
     (case validate_timeout (timeout data) of
        Inl e \<Rightarrow> Inl e
      | Inr t \<Rightarrow>
          (case validate_rotate_angle (rotate_angle data) of
             Inl e \<Rightarrow> Inl e
           | Inr r \<Rightarrow> Inr (data\<lparr>timeout := t, rotate_angle := r\<rparr>)))"

definition to_headers :: "TextExtractionConfig \<Rightarrow> headers" where
  "to_headers self =
     (let headers = Map.empty;
          headers = (case timeout self of
                       None \<Rightarrow> headers
                     | Some t \<Rightarrow> headers(''timeout'' \<mapsto> PyInt t));
          headers = set_if (rotate_angle self \<noteq> 0)
                      ''rotate_angle'' (PyInt (rotate_angle self)) headers;
          headers = (if with_ocr self
                     then
                       (let headers = headers(''with_ocr'' \<mapsto> PyBool True);
                            headers = set_if (with_bounding_boxes self)
                                        ''with_bounding_boxes'' (PyBool True) headers;
                            headers = set_if (inline_ocr self)
                                        ''inline_ocr'' (PyBool True) headers;
                            headers = set_if (detect_tables self)
                                        ''detect_tables'' (PyBool True) headers
                        in headers)
                     else headers);
          headers = set_if (as_plain_text self) ''as_plain_text'' (PyBool True) headers
      in headers)"

definition get_text_config :: "TextExtractionConfig option \<Rightarrow> headers" where
  "get_text_config config =
     (let config = (case config of None \<Rightarrow> TextExtractionConfig_defaults | Some c \<Rightarrow> c)
      in to_headers config)"

text \<open>
  The use shown in \<open>example_usage\<close>: construct the model, then pass it to
  \<open>get_text\<close>.
\<close>

definition get_text_config_call :: "TextExtractionConfig \<Rightarrow> error + headers" where
  "get_text_config_call data =
     (case TextExtractionConfig_init data of
        Inl e \<Rightarrow> Inl e
      | Inr config \<Rightarrow> Inr (get_text_config (Some config)))"

text \<open>
  A caller may pass a raw Python value for \<open>timeout\<close>. The field is declared
  \<open>Optional[int]\<close>: \<open>None\<close> is kept, and any other value is first converted to an
  integer, or refused, by the pydantic library; the repository's validator runs on the
  converted value and has no type check of its own. The library is not part of the
  repository, so its conversion is the parameter \<open>to_int\<close>, with \<open>to_int v = None\<close>
  when the value is refused. A refused value makes the construction fail with the
  library's validation error, which is a \<open>ValueError\<close>.
\<close>

definition TextExtractionConfig_init_raw ::
  "(pyval \<Rightarrow> int option) \<Rightarrow> TextExtractionConfig \<Rightarrow> pyval option
     \<Rightarrow> error + TextExtractionConfig" where
  "TextExtractionConfig_init_raw to_int data raw =
     (case raw of
        None \<Rightarrow> TextExtractionConfig_init (data\<lparr>timeout := None\<rparr>)
      | Some v \<Rightarrow>
          (case to_int v of
             None \<Rightarrow> Inl (ValueError ''Input should be a valid integer'')
           | Some n \<Rightarrow> TextExtractionConfig_init (data\<lparr>timeout := Some n\<rparr>)))"

text \<open>
  One conversion, following the library's documentation of its default mode for the
  values of \<open>pyval\<close>: an integer is kept, and a string that consists of decimal digits
  is read as the integer it writes.
\<close>

definition digit_value :: "char \<Rightarrow> int option" where
  "digit_value c =
     (let n = (of_char c :: nat)
      in if 48 \<le> n \<and> n \<le> 57 then Some (int n - 48) else None)"

fun digits_value :: "string \<Rightarrow> int \<Rightarrow> int option" where
  "digits_value [] acc = Some acc"
| "digits_value (c # cs) acc =
     (case digit_value c of
        None \<Rightarrow> None
      | Some d \<Rightarrow> digits_value cs (10 * acc + d))"

fun lax_int :: "pyval \<Rightarrow> int option" where
  "lax_int (PyStr s) = (if s = [] then None else digits_value s 0)"
| "lax_int v = as_int v"


section \<open>4.functional.py\<close>

text \<open>
  An option is a function from dictionary to dictionary. \<open>WithTimeout\<close> and
  \<open>WithRotation\<close> check their argument when the option is created and raise there.
  The keyword arguments of the OCR option are a record; the two styles differ in the
  default of \<open>inline\<close>.
\<close>

type_synonym Option = "headers \<Rightarrow> headers"

record ocr_kwargs =
  arg_inline :: bool
  arg_with_bounding_boxes :: bool
  arg_detect_tables :: bool

definition WithOCR_defaults :: ocr_kwargs where
  "WithOCR_defaults =
     \<lparr>arg_inline = False, arg_with_bounding_boxes = False, arg_detect_tables = False\<rparr>"

definition AsPlainText :: Option where
  "AsPlainText = (\<lambda>opt. opt(''as_plain_text'' \<mapsto> PyBool True))"

definition WithTimeout :: "pyval \<Rightarrow> error + Option" where
  "WithTimeout seconds =
     (case as_int seconds of
        None \<Rightarrow> Inl (TypeError ''Timeout must be an integer'')
      | Some n \<Rightarrow>
          if n \<le> 0 then Inl (ValueError ''Timeout must be positive'')
          else Inr (\<lambda>opt. opt(''timeout'' \<mapsto> seconds)))"

definition WithRotation :: "pyval \<Rightarrow> error + Option" where
  "WithRotation degrees =
     (if \<not> py_in degrees [0, 90, 180, 270]
      then Inl (ValueError ''Rotation must be one of 0, 90, 180, 270'')
      else Inr (\<lambda>opt. set_if (\<not> py_eq_int degrees 0) ''rotate_angle'' degrees opt))"

definition WithOCR :: "ocr_kwargs \<Rightarrow> Option" where
  "WithOCR kw =
     (\<lambda>opt.
        let opt = opt(''with_ocr'' \<mapsto> PyBool True);
            opt = set_if (arg_inline kw) ''inline_ocr'' (PyBool True) opt;
            opt = set_if (arg_with_bounding_boxes kw) ''with_bounding_boxes'' (PyBool True) opt;
            opt = set_if (arg_detect_tables kw) ''detect_tables'' (PyBool True) opt
        in opt)"

definition get_text_functional :: "Option list \<Rightarrow> headers" where
  "get_text_functional options = fold (\<lambda>option headers. option headers) options Map.empty"

text \<open>
  A call site \<open>get_text(file, o1, ..., on)\<close> whose arguments are calls of the
  constructors of \<open>Options\<close>. Python evaluates the arguments from left to right and
  the first exception ends the call.
\<close>

datatype setting =
    PlainText
  | Timeout pyval
  | Rotation pyval
  | OCR ocr_kwargs

fun functional_option :: "setting \<Rightarrow> error + Option" where
  "functional_option PlainText = Inr AsPlainText"
| "functional_option (Timeout seconds) = WithTimeout seconds"
| "functional_option (Rotation degrees) = WithRotation degrees"
| "functional_option (OCR kw) = Inr (WithOCR kw)"

fun eval_args :: "(error + 'a) list \<Rightarrow> error + 'a list" where
  "eval_args [] = Inr []"
| "eval_args (Inl e # as) = Inl e"
| "eval_args (Inr a # as) = (case eval_args as of Inl e \<Rightarrow> Inl e | Inr vs \<Rightarrow> Inr (a # vs))"

definition get_text_functional_call :: "setting list \<Rightarrow> error + headers" where
  "get_text_functional_call ss =
     (case eval_args (map functional_option ss) of
        Inl e \<Rightarrow> Inl e
      | Inr options \<Rightarrow> Inr (get_text_functional options))"


section \<open>5.chains.py\<close>

text \<open>
  The builder object holds the dictionary \<open>_options\<close>; every method updates it and
  returns the builder, or raises.
\<close>

record Options =
  options_dict :: headers

definition Options_init :: Options where
  "Options_init = \<lparr>options_dict = Map.empty\<rparr>"

definition with_ocr_defaults :: ocr_kwargs where
  "with_ocr_defaults =
     \<lparr>arg_inline = True, arg_with_bounding_boxes = False, arg_detect_tables = False\<rparr>"

definition chains_as_plain_text :: "Options \<Rightarrow> Options" where
  "chains_as_plain_text self =
     self\<lparr>options_dict := (options_dict self)(''as_plain_text'' \<mapsto> PyBool True)\<rparr>"

definition chains_with_ocr :: "ocr_kwargs \<Rightarrow> Options \<Rightarrow> Options" where
  "chains_with_ocr kw self =
     (let d = (options_dict self)(''with_ocr'' \<mapsto> PyBool True);
          d = set_if (arg_inline kw) ''inline_ocr'' (PyBool True) d;
          d = set_if (arg_with_bounding_boxes kw) ''with_bounding_boxes'' (PyBool True) d;
          d = set_if (arg_detect_tables kw) ''detect_tables'' (PyBool True) d
      in self\<lparr>options_dict := d\<rparr>)"

definition chains_timeout :: "pyval \<Rightarrow> Options \<Rightarrow> error + Options" where
  "chains_timeout seconds self =
     (case as_int seconds of
        None \<Rightarrow> Inl (TypeError ''Timeout must be an integer'')
      | Some n \<Rightarrow>
          if n \<le> 0 then Inl (ValueError ''Timeout must be positive'')
          else Inr (self\<lparr>options_dict := (options_dict self)(''timeout'' \<mapsto> seconds)\<rparr>))"

definition chains_rotate :: "pyval \<Rightarrow> Options \<Rightarrow> error + Options" where
  "chains_rotate degrees self =
     (if \<not> py_in degrees [0, 90, 180, 270]
      then Inl (ValueError ''Rotation must be one of 0, 90, 180, 270'')
      else Inr (self\<lparr>options_dict :=
                  set_if (\<not> py_eq_int degrees 0) ''rotate_angle'' degrees (options_dict self)\<rparr>))"

definition chains_build :: "Options \<Rightarrow> headers" where
  "chains_build self = options_dict self"

definition get_text_chains :: "Options \<Rightarrow> headers" where
  "get_text_chains options = (let headers = chains_build options in headers)"

text \<open>
  A chain \<open>Options().m1(...).m2(...)...\<close> of method calls, run from left to right; the
  first exception ends the chain.
\<close>

fun chains_call :: "setting \<Rightarrow> Options \<Rightarrow> error + Options" where
  "chains_call PlainText self = Inr (chains_as_plain_text self)"
| "chains_call (Timeout seconds) self = chains_timeout seconds self"
| "chains_call (Rotation degrees) self = chains_rotate degrees self"
| "chains_call (OCR kw) self = Inr (chains_with_ocr kw self)"

fun chains_chain :: "setting list \<Rightarrow> Options \<Rightarrow> error + Options" where
  "chains_chain [] self = Inr self"
| "chains_chain (s # ss) self =
     (case chains_call s self of Inl e \<Rightarrow> Inl e | Inr self' \<Rightarrow> chains_chain ss self')"

definition get_text_chains_call :: "setting list \<Rightarrow> error + headers" where
  "get_text_chains_call ss =
     (case chains_chain ss Options_init of
        Inl e \<Rightarrow> Inl e
      | Inr options \<Rightarrow> Inr (get_text_chains options))"


section \<open>Notions used to state and prove the properties\<close>

text \<open>
  A setting is accepted when its constructor does not raise, and then it has an effect
  on the dictionary. Both are derived from the constructors above (lemmas
  \<open>functional_option_ok\<close>, \<open>functional_option_bad\<close>, \<open>chains_call_ok\<close> and
  \<open>chains_call_bad\<close>) and serve the proofs about sequences of settings.
\<close>

fun setting_ok :: "setting \<Rightarrow> bool" where
  "setting_ok PlainText = True"
| "setting_ok (Timeout seconds) = (case as_int seconds of None \<Rightarrow> False | Some n \<Rightarrow> 0 < n)"
| "setting_ok (Rotation degrees) = py_in degrees [0, 90, 180, 270]"
| "setting_ok (OCR kw) = True"

fun setting_effect :: "setting \<Rightarrow> headers \<Rightarrow> headers" where
  "setting_effect PlainText opt = opt(''as_plain_text'' \<mapsto> PyBool True)"
| "setting_effect (Timeout seconds) opt = opt(''timeout'' \<mapsto> seconds)"
| "setting_effect (Rotation degrees) opt =
     set_if (\<not> py_eq_int degrees 0) ''rotate_angle'' degrees opt"
| "setting_effect (OCR kw) opt = WithOCR kw opt"

text \<open>
  Two supplied settings are compatible unless they are two timeouts with different
  values or two rotations with different non-zero angles. A sequence of settings has
  no conflict when its members are pairwise compatible.
\<close>

fun compatible :: "setting \<Rightarrow> setting \<Rightarrow> bool" where
  "compatible (Timeout s) (Timeout t) = (s = t)"
| "compatible (Rotation d) (Rotation e) = (py_eq_int d 0 \<or> py_eq_int e 0 \<or> d = e)"
| "compatible a b = True"

definition no_conflict :: "setting list \<Rightarrow> bool" where
  "no_conflict ss = list_all (\<lambda>a. list_all (\<lambda>b. compatible a b) ss) ss"

text \<open>The timeout argument of 2.extend is absent or a positive integer.\<close>

definition timeout_ok :: "pyval option \<Rightarrow> bool" where
  "timeout_ok t =
     (case t of
        None \<Rightarrow> True
      | Some v \<Rightarrow> (case as_int v of None \<Rightarrow> False | Some n \<Rightarrow> 0 < n))"

text \<open>
  The scenario "OCR enabled, bounding boxes on, rotate 90, timeout 30", written for each
  style with every other argument left at its default, and the header map the
  specification expects of all of them.
\<close>

definition scenario_extend :: extend_kwargs where
  "scenario_extend =
     extend_defaults\<lparr>extend_with_ocr := True, extend_with_bounding_boxes := True,
                     extend_rotate_angle := PyInt 90, extend_timeout := Some (PyInt 30)\<rparr>"

definition scenario_config :: TextExtractionConfig where
  "scenario_config =
     TextExtractionConfig_defaults\<lparr>with_ocr := True, with_bounding_boxes := True,
                                   rotate_angle := 90, timeout := Some 30\<rparr>"

definition scenario_functional :: "setting list" where
  "scenario_functional =
     [OCR (WithOCR_defaults\<lparr>arg_with_bounding_boxes := True\<rparr>),
      Rotation (PyInt 90), Timeout (PyInt 30)]"

definition scenario_chains :: "setting list" where
  "scenario_chains =
     [OCR (with_ocr_defaults\<lparr>arg_with_bounding_boxes := True\<rparr>),
      Rotation (PyInt 90), Timeout (PyInt 30)]"

definition scenario_expected :: headers where
  "scenario_expected =
     [''with_ocr'' \<mapsto> PyBool True, ''with_bounding_boxes'' \<mapsto> PyBool True,
      ''rotate_angle'' \<mapsto> PyInt 90, ''timeout'' \<mapsto> PyInt 30,
      ''Accept'' \<mapsto> PyStr ''text/plain'']"


section \<open>Sequences of settings\<close>

lemma set_if_apply: "set_if c k v h x = (if c \<and> x = k then Some v else h x)"
  by (simp add: set_if_def)

lemma WithOCR_apply:
  "WithOCR kw h k =
     (if k = ''detect_tables'' \<and> arg_detect_tables kw then Some (PyBool True)
      else if k = ''with_bounding_boxes'' \<and> arg_with_bounding_boxes kw then Some (PyBool True)
      else if k = ''inline_ocr'' \<and> arg_inline kw then Some (PyBool True)
      else if k = ''with_ocr'' then Some (PyBool True)
      else h k)"
  by (simp add: WithOCR_def Let_def set_if_apply)

subsection \<open>The constructors and methods in terms of validity and effect\<close>

lemma functional_option_ok: "setting_ok s \<Longrightarrow> functional_option s = Inr (setting_effect s)"
  by (cases s) (auto simp: AsPlainText_def WithTimeout_def WithRotation_def fun_eq_iff
      split: option.splits)

lemma functional_option_bad: "\<not> setting_ok s \<Longrightarrow> isl (functional_option s)"
  by (cases s) (auto simp: WithTimeout_def WithRotation_def split: option.splits)

lemma eval_args_ok:
  "list_all setting_ok ss \<Longrightarrow>
     eval_args (map functional_option ss) = Inr (map setting_effect ss)"
  by (induction ss) (simp_all add: functional_option_ok)

lemma eval_args_bad:
  "\<not> list_all setting_ok ss \<Longrightarrow> isl (eval_args (map functional_option ss))"
proof (induction ss)
  case Nil
  then show ?case by simp
next
  case (Cons s ss)
  show ?case
  proof (cases "setting_ok s")
    case True
    with Cons have "isl (eval_args (map functional_option ss))" by simp
    then show ?thesis using True
      by (auto simp: functional_option_ok isl_def)
  next
    case False
    then have "isl (functional_option s)" by (rule functional_option_bad)
    then show ?thesis by (auto simp: isl_def)
  qed
qed

lemma get_text_functional_call_ok:
  "list_all setting_ok ss \<Longrightarrow>
     get_text_functional_call ss = Inr (fold setting_effect ss Map.empty)"
  by (simp add: get_text_functional_call_def eval_args_ok get_text_functional_def fold_map comp_def)

lemma get_text_functional_call_bad:
  "\<not> list_all setting_ok ss \<Longrightarrow> isl (get_text_functional_call ss)"
  using eval_args_bad [of ss]
  by (auto simp: get_text_functional_call_def isl_def)

lemma chains_call_ok:
  "setting_ok s \<Longrightarrow>
     chains_call s self = Inr (self\<lparr>options_dict := setting_effect s (options_dict self)\<rparr>)"
  by (cases s) (auto simp: chains_as_plain_text_def chains_timeout_def chains_rotate_def
      chains_with_ocr_def WithOCR_def Let_def split: option.splits)

lemma chains_call_bad: "\<not> setting_ok s \<Longrightarrow> isl (chains_call s self)"
  by (cases s) (auto simp: chains_timeout_def chains_rotate_def split: option.splits)

lemma chains_chain_ok:
  "list_all setting_ok ss \<Longrightarrow>
     chains_chain ss self = Inr (self\<lparr>options_dict := fold setting_effect ss (options_dict self)\<rparr>)"
  by (induction ss arbitrary: self) (simp_all add: chains_call_ok)

lemma chains_chain_bad: "\<not> list_all setting_ok ss \<Longrightarrow> isl (chains_chain ss self)"
proof (induction ss arbitrary: self)
  case Nil
  then show ?case by simp
next
  case (Cons s ss)
  show ?case
  proof (cases "setting_ok s")
    case True
    with Cons.prems have "\<not> list_all setting_ok ss" by simp
    then show ?thesis using True Cons.IH by (simp add: chains_call_ok)
  next
    case False
    then have "isl (chains_call s self)" by (rule chains_call_bad)
    then show ?thesis by (auto simp: isl_def)
  qed
qed

lemma get_text_chains_call_ok:
  "list_all setting_ok ss \<Longrightarrow>
     get_text_chains_call ss = Inr (fold setting_effect ss Map.empty)"
  by (simp add: get_text_chains_call_def chains_chain_ok get_text_chains_def chains_build_def
      Options_init_def)

lemma get_text_chains_call_bad:
  "\<not> list_all setting_ok ss \<Longrightarrow> isl (get_text_chains_call ss)"
  using chains_chain_bad [of ss Options_init]
  by (auto simp: get_text_chains_call_def isl_def)

subsection \<open>Compatible settings commute\<close>

text \<open>
  The effect of a setting overrides the dictionary with the entries the setting writes,
  and two compatible settings write the same value wherever both write.
\<close>

lemma set_if_map_add: "set_if c k v h = h ++ set_if c k v Map.empty"
  by (rule ext) (simp add: set_if_def map_add_def)

lemma WithOCR_map_add: "WithOCR kw h = h ++ WithOCR kw Map.empty"
  by (rule ext) (simp add: WithOCR_apply map_add_def)

lemma effect_map_add: "setting_effect s h = h ++ setting_effect s Map.empty"
proof (cases s)
  case (OCR kw)
  then show ?thesis using WithOCR_map_add [of kw h] by simp
qed (simp_all add: set_if_map_add [symmetric])

lemma writes_key:
  assumes "setting_effect s Map.empty k = Some v"
  shows "(case s of
            PlainText \<Rightarrow> k = ''as_plain_text'' \<and> v = PyBool True
          | Timeout t \<Rightarrow> k = ''timeout'' \<and> v = t
          | Rotation d \<Rightarrow> k = ''rotate_angle'' \<and> v = d \<and> \<not> py_eq_int d 0
          | OCR kw \<Rightarrow> v = PyBool True \<and>
              (k = ''with_ocr'' \<or> k = ''inline_ocr'' \<or> k = ''with_bounding_boxes''
               \<or> k = ''detect_tables''))"
proof (cases s)
  case PlainText
  with assms show ?thesis by (simp split: if_splits)
next
  case (Timeout t)
  with assms show ?thesis by (simp split: if_splits)
next
  case (Rotation d)
  with assms show ?thesis by (simp add: set_if_apply split: if_splits)
next
  case (OCR kw)
  with assms show ?thesis by (simp add: WithOCR_apply split: if_splits)
qed

lemma writes_agree:
  assumes c: "compatible a b"
    and a: "setting_effect a Map.empty k = Some v"
    and b: "setting_effect b Map.empty k = Some w"
  shows "v = w"
  using c writes_key [OF a] writes_key [OF b]
  by (cases a; cases b) auto

lemma map_add_agree_commute:
  assumes "\<And>k v w. m1 k = Some v \<Longrightarrow> m2 k = Some w \<Longrightarrow> v = w"
  shows "h ++ m1 ++ m2 = h ++ m2 ++ m1"
proof (rule ext)
  fix k
  show "(h ++ m1 ++ m2) k = (h ++ m2 ++ m1) k"
  proof (cases "m1 k")
    case None
    then show ?thesis by (simp add: map_add_def split: option.splits)
  next
    case (Some v)
    note m1 = this
    show ?thesis
    proof (cases "m2 k")
      case None
      with m1 show ?thesis by (simp add: map_add_def)
    next
      case (Some w)
      with m1 have "v = w" by (rule assms)
      with m1 Some show ?thesis by (simp add: map_add_def)
    qed
  qed
qed

lemma effect_twice:
  "setting_effect a (setting_effect b h)
     = h ++ setting_effect b Map.empty ++ setting_effect a Map.empty"
proof -
  have 1: "setting_effect a (setting_effect b h)
          = setting_effect b h ++ setting_effect a Map.empty"
    by (rule effect_map_add)
  have 2: "setting_effect b h = h ++ setting_effect b Map.empty"
    by (rule effect_map_add)
  show ?thesis
    by (rule trans [OF 1]) (rule arg_cong [where f = "\<lambda>m. m ++ setting_effect a Map.empty", OF 2])
qed

lemma effect_commute:
  assumes "compatible a b"
  shows "setting_effect a \<circ> setting_effect b = setting_effect b \<circ> setting_effect a"
proof (rule ext)
  fix h
  have "h ++ setting_effect b Map.empty ++ setting_effect a Map.empty
          = h ++ setting_effect a Map.empty ++ setting_effect b Map.empty"
  proof (rule map_add_agree_commute)
    fix k v w
    assume "setting_effect b Map.empty k = Some v" and "setting_effect a Map.empty k = Some w"
    then have "w = v" by (intro writes_agree [OF assms])
    then show "v = w" by (rule sym)
  qed
  then have "setting_effect a (setting_effect b h) = setting_effect b (setting_effect a h)"
    by (simp only: effect_twice)
  then show "(setting_effect a \<circ> setting_effect b) h = (setting_effect b \<circ> setting_effect a) h"
    by (simp only: comp_apply)
qed

lemma no_conflict_compatible:
  "no_conflict ss \<Longrightarrow> a \<in> set ss \<Longrightarrow> b \<in> set ss \<Longrightarrow> compatible a b"
  by (simp add: no_conflict_def list_all_iff)

lemma fold_effect_permute:
  assumes "no_conflict ss" and "mset ss = mset ss'"
  shows "fold setting_effect ss = fold setting_effect ss'"
proof (rule fold_multiset_equiv)
  fix a b
  assume "a \<in> set ss" and "b \<in> set ss"
  with assms(1) have "compatible a b" by (rule no_conflict_compatible)
  then show "setting_effect a \<circ> setting_effect b = setting_effect b \<circ> setting_effect a"
    by (rule effect_commute)
next
  show "mset ss = mset ss'" by (rule assms(2))
qed

lemma list_all_ok_permute:
  "mset ss = mset ss' \<Longrightarrow> list_all setting_ok ss = list_all setting_ok ss'"
  by (auto simp: list_all_iff dest: mset_eq_setD)


section \<open>Header lookups of 2.extend and 3.config\<close>

lemma get_text_extend_Inr_iff:
  "get_text_extend kw = Inr h \<longleftrightarrow>
     timeout_ok (extend_timeout kw) \<and> py_in (extend_rotate_angle kw) [0, 90, 180, 270] \<and>
     h = set_if (extend_as_plain_text kw) ''Accept'' (PyStr ''text/plain'')
          (set_if (extend_inline_ocr kw) ''inline_ocr'' (PyStr ''true'')
          (set_if (\<not> extend_with_ocr kw) ''SkipOCR'' (PyStr ''true'')
          (set_if (extend_as_plain_text kw) ''as_plain_text'' (PyBool True)
          (set_if (extend_ocr_with_text kw) ''ocr_with_text'' (PyBool True)
          (set_if (extend_with_bounding_boxes kw) ''with_bounding_boxes'' (PyBool True)
          (set_if (extend_detect_tables kw) ''detect_tables'' (PyBool True)
          (set_if (\<not> py_eq_int (extend_rotate_angle kw) 0) ''rotate_angle'' (extend_rotate_angle kw)
          (case extend_timeout kw of None \<Rightarrow> Map.empty | Some t \<Rightarrow> [''timeout'' \<mapsto> t]))))))))"
  by (auto simp: get_text_extend_def timeout_ok_def Let_def split: option.splits)

lemma get_text_extend_isl_iff:
  "isl (get_text_extend kw) \<longleftrightarrow>
     \<not> (timeout_ok (extend_timeout kw) \<and> py_in (extend_rotate_angle kw) [0, 90, 180, 270])"
  by (auto simp: get_text_extend_def timeout_ok_def Let_def split: option.splits)

lemma get_text_extend_lookup:
  assumes "get_text_extend kw = Inr h"
  shows "h ''timeout'' = extend_timeout kw"
    and "h ''rotate_angle'' =
           (if py_eq_int (extend_rotate_angle kw) 0 then None else Some (extend_rotate_angle kw))"
    and "h ''detect_tables'' = (if extend_detect_tables kw then Some (PyBool True) else None)"
    and "h ''with_bounding_boxes'' =
           (if extend_with_bounding_boxes kw then Some (PyBool True) else None)"
    and "h ''ocr_with_text'' = (if extend_ocr_with_text kw then Some (PyBool True) else None)"
    and "h ''as_plain_text'' = (if extend_as_plain_text kw then Some (PyBool True) else None)"
    and "h ''SkipOCR'' = (if extend_with_ocr kw then None else Some (PyStr ''true''))"
    and "h ''inline_ocr'' = (if extend_inline_ocr kw then Some (PyStr ''true'') else None)"
    and "h ''Accept'' = (if extend_as_plain_text kw then Some (PyStr ''text/plain'') else None)"
    and "h ''with_ocr'' = None"
  using assms unfolding get_text_extend_Inr_iff
  by (simp_all add: set_if_apply split: option.splits)

lemma to_headers_lookup:
  shows "to_headers c ''timeout'' = map_option PyInt (timeout c)"
    and "to_headers c ''rotate_angle'' =
           (if rotate_angle c = 0 then None else Some (PyInt (rotate_angle c)))"
    and "to_headers c ''with_ocr'' = (if with_ocr c then Some (PyBool True) else None)"
    and "to_headers c ''with_bounding_boxes'' =
           (if with_ocr c \<and> with_bounding_boxes c then Some (PyBool True) else None)"
    and "to_headers c ''inline_ocr'' =
           (if with_ocr c \<and> inline_ocr c then Some (PyBool True) else None)"
    and "to_headers c ''detect_tables'' =
           (if with_ocr c \<and> detect_tables c then Some (PyBool True) else None)"
    and "to_headers c ''ocr_with_text'' = None"
    and "to_headers c ''SkipOCR'' = None"
    and "to_headers c ''Accept'' = None"
  by (simp_all add: to_headers_def Let_def set_if_apply split: option.splits)


section \<open>The scenario in each style\<close>

lemmas hdr_defs = set_if_def py_in_def py_eq_int_def Let_def

lemma scenario_extend_value:
  "get_text_extend scenario_extend
     = Inr [''timeout'' \<mapsto> PyInt 30, ''rotate_angle'' \<mapsto> PyInt 90,
            ''with_bounding_boxes'' \<mapsto> PyBool True, ''as_plain_text'' \<mapsto> PyBool True,
            ''Accept'' \<mapsto> PyStr ''text/plain'']"
  by (simp add: get_text_extend_def scenario_extend_def extend_defaults_def hdr_defs)

lemma scenario_config_value:
  "get_text_config_call scenario_config
     = Inr [''timeout'' \<mapsto> PyInt 30, ''rotate_angle'' \<mapsto> PyInt 90,
            ''with_ocr'' \<mapsto> PyBool True, ''with_bounding_boxes'' \<mapsto> PyBool True,
            ''as_plain_text'' \<mapsto> PyBool True]"
  by (simp add: get_text_config_call_def TextExtractionConfig_init_def validate_timeout_def
      validate_rotate_angle_def get_text_config_def to_headers_def scenario_config_def
      TextExtractionConfig_defaults_def hdr_defs)

lemma scenario_functional_value:
  "get_text_functional_call scenario_functional
     = Inr [''with_ocr'' \<mapsto> PyBool True, ''with_bounding_boxes'' \<mapsto> PyBool True,
            ''rotate_angle'' \<mapsto> PyInt 90, ''timeout'' \<mapsto> PyInt 30]"
  by (simp add: get_text_functional_call_def get_text_functional_def scenario_functional_def
      WithOCR_defaults_def WithOCR_def WithRotation_def WithTimeout_def hdr_defs)

lemma scenario_chains_value:
  "get_text_chains_call scenario_chains
     = Inr [''with_ocr'' \<mapsto> PyBool True, ''inline_ocr'' \<mapsto> PyBool True,
            ''with_bounding_boxes'' \<mapsto> PyBool True,
            ''rotate_angle'' \<mapsto> PyInt 90, ''timeout'' \<mapsto> PyInt 30]"
  by (simp add: get_text_chains_call_def get_text_chains_def chains_build_def scenario_chains_def
      with_ocr_defaults_def chains_with_ocr_def chains_rotate_def chains_timeout_def
      Options_init_def hdr_defs)


section \<open>The claims\<close>

subsection \<open>C5: no settings supplied\<close>

text \<open>
  C5 states that with no settings supplied every style produces exactly
  \<open>{Accept: "text/plain", SkipOCR: "true"}\<close>. The functional-options style does
  not: with no option the dictionary stays empty.
\<close>

theorem no_settings_functional_empty:
  "get_text_functional_call []
     \<noteq> Inr [''Accept'' \<mapsto> PyStr ''text/plain'', ''SkipOCR'' \<mapsto> PyStr ''true'']"
proof
  assume "get_text_functional_call []
     = Inr [''Accept'' \<mapsto> PyStr ''text/plain'', ''SkipOCR'' \<mapsto> PyStr ''true'']"
  then have "Map.empty ''Accept''
     = [''Accept'' \<mapsto> PyStr ''text/plain'', ''SkipOCR'' \<mapsto> PyStr ''true''] ''Accept''"
    by (simp add: get_text_functional_call_def get_text_functional_def)
  then show False by simp
qed

text \<open>
  C5 as amended: with no settings supplied, 1.simple produces exactly
  \<open>{Accept: "text/plain", SkipOCR: "true"}\<close>, 2.extend produces these two entries
  and \<open>as_plain_text: True\<close>, and the functional-options and fluent-builder styles
  produce the empty dictionary.
\<close>

theorem no_settings_by_style:
  "get_text_simple simple_defaults
      = [''SkipOCR'' \<mapsto> PyStr ''true'', ''Accept'' \<mapsto> PyStr ''text/plain''] \<and>
   get_text_extend extend_defaults
      = Inr [''as_plain_text'' \<mapsto> PyBool True, ''SkipOCR'' \<mapsto> PyStr ''true'',
             ''Accept'' \<mapsto> PyStr ''text/plain''] \<and>
   get_text_functional_call [] = Inr Map.empty \<and>
   get_text_chains_call [] = Inr Map.empty"
  by (simp add: get_text_simple_def simple_defaults_def get_text_extend_def extend_defaults_def
       get_text_functional_call_def get_text_functional_def get_text_chains_call_def
       get_text_chains_def chains_build_def Options_init_def hdr_defs)

subsection \<open>C10: the default of \<open>inline\<close>\<close>

text \<open>
  C10: in the fluent-builder style \<open>with_ocr()\<close> without arguments has
  \<open>inline = True\<close>, so the built dictionary holds \<open>with_ocr: True\<close> and
  \<open>inline_ocr: True\<close>; in the functional-options style \<open>WithOCR()\<close> without
  arguments has \<open>inline = False\<close> and sets \<open>with_ocr: True\<close> only.
\<close>

theorem with_ocr_default_inline:
  "arg_inline with_ocr_defaults = True \<and>
   get_text_chains_call [OCR with_ocr_defaults]
     = Inr [''with_ocr'' \<mapsto> PyBool True, ''inline_ocr'' \<mapsto> PyBool True] \<and>
   arg_inline WithOCR_defaults = False \<and>
   get_text_functional_call [OCR WithOCR_defaults] = Inr [''with_ocr'' \<mapsto> PyBool True]"
  by (simp add: get_text_chains_call_def get_text_chains_def chains_build_def chains_with_ocr_def
      Options_init_def with_ocr_defaults_def WithOCR_defaults_def get_text_functional_call_def
      get_text_functional_def WithOCR_def set_if_def Let_def)

subsection \<open>C1: one scenario through every style\<close>

text \<open>
  C1 states that for "OCR enabled, bounding boxes on, rotate 90, timeout 30" every style
  produces the header map \<open>scenario_expected\<close>. None of the four does: 2.extend has no
  \<open>with_ocr\<close> entry, and the other three have no \<open>Accept\<close> entry.
\<close>

theorem scenario_not_identical:
  "get_text_extend scenario_extend \<noteq> Inr scenario_expected \<and>
   get_text_config_call scenario_config \<noteq> Inr scenario_expected \<and>
   get_text_functional_call scenario_functional \<noteq> Inr scenario_expected \<and>
   get_text_chains_call scenario_chains \<noteq> Inr scenario_expected"
proof (intro conjI notI)
  assume "get_text_extend scenario_extend = Inr scenario_expected"
  then have "scenario_expected ''with_ocr'' = None"
    by (rule get_text_extend_lookup(10))
  then show False by (simp add: scenario_expected_def)
next
  assume "get_text_config_call scenario_config = Inr scenario_expected"
  then have "scenario_expected ''Accept''
     = [''timeout'' \<mapsto> PyInt 30, ''rotate_angle'' \<mapsto> PyInt 90,
        ''with_ocr'' \<mapsto> PyBool True, ''with_bounding_boxes'' \<mapsto> PyBool True,
        ''as_plain_text'' \<mapsto> PyBool True] ''Accept''"
    by (simp only: scenario_config_value sum.inject)
  then show False by (simp add: scenario_expected_def)
next
  assume "get_text_functional_call scenario_functional = Inr scenario_expected"
  then have "scenario_expected ''Accept''
     = [''with_ocr'' \<mapsto> PyBool True, ''with_bounding_boxes'' \<mapsto> PyBool True,
        ''rotate_angle'' \<mapsto> PyInt 90, ''timeout'' \<mapsto> PyInt 30] ''Accept''"
    by (simp only: scenario_functional_value sum.inject)
  then show False by (simp add: scenario_expected_def)
next
  assume "get_text_chains_call scenario_chains = Inr scenario_expected"
  then have "scenario_expected ''Accept''
     = [''with_ocr'' \<mapsto> PyBool True, ''inline_ocr'' \<mapsto> PyBool True,
        ''with_bounding_boxes'' \<mapsto> PyBool True,
        ''rotate_angle'' \<mapsto> PyInt 90, ''timeout'' \<mapsto> PyInt 30] ''Accept''"
    by (simp only: scenario_chains_value sum.inject)
  then show False by (simp add: scenario_expected_def)
qed

text \<open>
  C1 as amended: for that scenario every style binds \<open>with_bounding_boxes\<close> to
  \<open>True\<close>, \<open>rotate_angle\<close> to 90 and \<open>timeout\<close> to 30, and the maps differ in
  the rest. 2.extend produces exactly these three entries with \<open>as_plain_text: True\<close>
  and \<open>Accept: "text/plain"\<close>, and no \<open>with_ocr\<close>; 3.config has \<open>with_ocr: True\<close>
  and neither \<open>Accept\<close> nor \<open>SkipOCR\<close>; the functional-options style produces exactly
  the three entries and \<open>with_ocr: True\<close>; the fluent builder, with \<open>inline\<close> left at
  its default, produces these four and \<open>inline_ocr: True\<close>.
\<close>

theorem scenario_headers_by_style:
  "get_text_extend scenario_extend
     = Inr [''timeout'' \<mapsto> PyInt 30, ''rotate_angle'' \<mapsto> PyInt 90,
            ''with_bounding_boxes'' \<mapsto> PyBool True, ''as_plain_text'' \<mapsto> PyBool True,
            ''Accept'' \<mapsto> PyStr ''text/plain''] \<and>
   (\<exists>h. get_text_config_call scenario_config = Inr h \<and>
        h ''timeout'' = Some (PyInt 30) \<and> h ''rotate_angle'' = Some (PyInt 90) \<and>
        h ''with_bounding_boxes'' = Some (PyBool True) \<and> h ''with_ocr'' = Some (PyBool True) \<and>
        h ''Accept'' = None \<and> h ''SkipOCR'' = None \<and> h ''inline_ocr'' = None) \<and>
   get_text_functional_call scenario_functional
     = Inr [''with_ocr'' \<mapsto> PyBool True, ''with_bounding_boxes'' \<mapsto> PyBool True,
            ''rotate_angle'' \<mapsto> PyInt 90, ''timeout'' \<mapsto> PyInt 30] \<and>
   get_text_chains_call scenario_chains
     = Inr [''with_ocr'' \<mapsto> PyBool True, ''inline_ocr'' \<mapsto> PyBool True,
            ''with_bounding_boxes'' \<mapsto> PyBool True,
            ''rotate_angle'' \<mapsto> PyInt 90, ''timeout'' \<mapsto> PyInt 30]"
proof (intro conjI)
  show "\<exists>h. get_text_config_call scenario_config = Inr h \<and>
        h ''timeout'' = Some (PyInt 30) \<and> h ''rotate_angle'' = Some (PyInt 90) \<and>
        h ''with_bounding_boxes'' = Some (PyBool True) \<and> h ''with_ocr'' = Some (PyBool True) \<and>
        h ''Accept'' = None \<and> h ''SkipOCR'' = None \<and> h ''inline_ocr'' = None"
    by (rule exI, rule conjI, rule scenario_config_value) simp
qed (rule scenario_extend_value scenario_functional_value scenario_chains_value)+

subsection \<open>C8: the order of the supplied settings\<close>

text \<open>
  C8 states that applying the same collection of options in any order yields the same
  header map. Two timeouts with different values are a collection whose two orders give
  different maps: the later one stays.
\<close>

theorem repeated_timeout_order_matters:
  "mset [Timeout (PyInt 30), Timeout (PyInt 60)] = mset [Timeout (PyInt 60), Timeout (PyInt 30)] \<and>
   get_text_functional_call [Timeout (PyInt 30), Timeout (PyInt 60)]
     = Inr [''timeout'' \<mapsto> PyInt 60] \<and>
   get_text_functional_call [Timeout (PyInt 60), Timeout (PyInt 30)]
     = Inr [''timeout'' \<mapsto> PyInt 30] \<and>
   get_text_functional_call [Timeout (PyInt 30), Timeout (PyInt 60)]
     \<noteq> get_text_functional_call [Timeout (PyInt 60), Timeout (PyInt 30)]"
proof -
  have a: "get_text_functional_call [Timeout (PyInt 30), Timeout (PyInt 60)]
     = Inr [''timeout'' \<mapsto> PyInt 60]"
    by (simp add: get_text_functional_call_def get_text_functional_def WithTimeout_def)
  have b: "get_text_functional_call [Timeout (PyInt 60), Timeout (PyInt 30)]
     = Inr [''timeout'' \<mapsto> PyInt 30]"
    by (simp add: get_text_functional_call_def get_text_functional_def WithTimeout_def)
  have c: "[''timeout'' \<mapsto> PyInt 60] \<noteq> [''timeout'' \<mapsto> PyInt 30]"
  proof
    assume "[''timeout'' \<mapsto> PyInt 60] = [''timeout'' \<mapsto> PyInt 30]"
    then have "[''timeout'' \<mapsto> PyInt 60] ''timeout'' = [''timeout'' \<mapsto> PyInt 30] ''timeout''"
      by (rule fun_cong)
    then show False by simp
  qed
  have d: "mset [Timeout (PyInt 30), Timeout (PyInt 60)]
         = mset [Timeout (PyInt 60), Timeout (PyInt 30)]"
    by (simp add: add_mset_commute)
  have e: "get_text_functional_call [Timeout (PyInt 30), Timeout (PyInt 60)]
     \<noteq> get_text_functional_call [Timeout (PyInt 60), Timeout (PyInt 30)]"
    unfolding a b using c by (simp only: sum.inject not_False_eq_True)
  show ?thesis
    by (intro conjI) (rule d a b e)+
qed

text \<open>
  C8 as amended: in the functional-options and fluent-builder styles, two orders of the
  same collection of settings either both raise or both produce the same header map,
  provided the collection holds no two timeouts with different values and no two
  rotations with different non-zero angles. (OCR sub-options are arguments of the OCR
  option itself, so none can be supplied before or after OCR is enabled.)
\<close>

theorem order_independent_without_conflict:
  assumes "mset ss = mset ss'" and "no_conflict ss"
  shows "isl (get_text_functional_call ss) = isl (get_text_functional_call ss') \<and>
         (\<forall>h. get_text_functional_call ss = Inr h \<longrightarrow> get_text_functional_call ss' = Inr h) \<and>
         isl (get_text_chains_call ss) = isl (get_text_chains_call ss') \<and>
         (\<forall>h. get_text_chains_call ss = Inr h \<longrightarrow> get_text_chains_call ss' = Inr h)"
proof -
  have eq: "list_all setting_ok ss = list_all setting_ok ss'"
    using assms(1) by (rule list_all_ok_permute)
  show ?thesis
  proof (cases "list_all setting_ok ss")
  case True
  with eq have ok': "list_all setting_ok ss'" by blast
  have f: "fold setting_effect ss = fold setting_effect ss'"
    using assms(2,1) by (rule fold_effect_permute)
  show ?thesis
    by (simp add: get_text_functional_call_ok get_text_chains_call_ok True ok' f)
next
  case False
  with eq have bad': "\<not> list_all setting_ok ss'" by blast
  have "isl (get_text_functional_call ss)" "isl (get_text_functional_call ss')"
    "isl (get_text_chains_call ss)" "isl (get_text_chains_call ss')"
    using False bad'
    by (simp_all add: get_text_functional_call_bad get_text_chains_call_bad)
  then show ?thesis by (auto simp: isl_def)
  qed
qed

text \<open>
  C8, witness: three settings in two orders, without conflict, in both styles.
\<close>

theorem order_independent_without_conflict_witness:
  "mset [Timeout (PyInt 30), OCR WithOCR_defaults, Rotation (PyInt 90)]
     = mset [Rotation (PyInt 90), Timeout (PyInt 30), OCR WithOCR_defaults] \<and>
   no_conflict [Timeout (PyInt 30), OCR WithOCR_defaults, Rotation (PyInt 90)] \<and>
   get_text_functional_call [Timeout (PyInt 30), OCR WithOCR_defaults, Rotation (PyInt 90)]
     = Inr [''timeout'' \<mapsto> PyInt 30, ''with_ocr'' \<mapsto> PyBool True,
            ''rotate_angle'' \<mapsto> PyInt 90] \<and>
   get_text_functional_call [Rotation (PyInt 90), Timeout (PyInt 30), OCR WithOCR_defaults]
     = Inr [''timeout'' \<mapsto> PyInt 30, ''with_ocr'' \<mapsto> PyBool True,
            ''rotate_angle'' \<mapsto> PyInt 90] \<and>
   get_text_chains_call [Rotation (PyInt 90), Timeout (PyInt 30), OCR WithOCR_defaults]
     = Inr [''timeout'' \<mapsto> PyInt 30, ''with_ocr'' \<mapsto> PyBool True,
            ''rotate_angle'' \<mapsto> PyInt 90]"
proof -
  have m: "mset [Timeout (PyInt 30), OCR WithOCR_defaults, Rotation (PyInt 90)]
     = mset [Rotation (PyInt 90), Timeout (PyInt 30), OCR WithOCR_defaults]"
    by (simp add: add_mset_commute)
  have n: "no_conflict [Timeout (PyInt 30), OCR WithOCR_defaults, Rotation (PyInt 90)]"
    by (simp add: no_conflict_def)
  have v: "get_text_functional_call [Timeout (PyInt 30), OCR WithOCR_defaults, Rotation (PyInt 90)]
     = Inr [''timeout'' \<mapsto> PyInt 30, ''with_ocr'' \<mapsto> PyBool True,
            ''rotate_angle'' \<mapsto> PyInt 90]"
    by (simp add: get_text_functional_call_def get_text_functional_def WithTimeout_def
        WithOCR_def WithOCR_defaults_def WithRotation_def hdr_defs)
  from order_independent_without_conflict [OF m n] v
  have "get_text_functional_call [Rotation (PyInt 90), Timeout (PyInt 30), OCR WithOCR_defaults]
     = Inr [''timeout'' \<mapsto> PyInt 30, ''with_ocr'' \<mapsto> PyBool True,
            ''rotate_angle'' \<mapsto> PyInt 90]"
    by blast
  note w = this
  have v': "get_text_chains_call [Timeout (PyInt 30), OCR WithOCR_defaults, Rotation (PyInt 90)]
     = Inr [''timeout'' \<mapsto> PyInt 30, ''with_ocr'' \<mapsto> PyBool True,
            ''rotate_angle'' \<mapsto> PyInt 90]"
    by (simp add: get_text_chains_call_def get_text_chains_def chains_build_def
        Options_init_def chains_timeout_def chains_with_ocr_def WithOCR_defaults_def
        chains_rotate_def hdr_defs)
  from order_independent_without_conflict [OF m n] v'
  have w': "get_text_chains_call [Rotation (PyInt 90), Timeout (PyInt 30), OCR WithOCR_defaults]
     = Inr [''timeout'' \<mapsto> PyInt 30, ''with_ocr'' \<mapsto> PyBool True,
            ''rotate_angle'' \<mapsto> PyInt 90]"
    by blast
  show ?thesis by (intro conjI) (rule m n v w w')+
qed

subsection \<open>C9: repeated application of one setting\<close>

text \<open>
  C9 states that repeating a setting follows one policy for all settings, last write
  wins or an error, also for \<open>WithRotation(0)\<close> after \<open>WithRotation(90)\<close>. The code
  at that input: a second timeout and a second non-zero rotation replace the first, but
  \<open>WithRotation(0)\<close> after \<open>WithRotation(90)\<close> leaves \<open>rotate_angle: 90\<close> in the
  map, although \<open>WithRotation(0)\<close> alone produces no \<open>rotate_angle\<close> entry. The
  builder's \<open>rotate\<close> behaves the same way.
\<close>

theorem rotation_zero_keeps_earlier_angle:
  "get_text_functional_call [Rotation (PyInt 90), Rotation (PyInt 0)]
     = Inr [''rotate_angle'' \<mapsto> PyInt 90] \<and>
   get_text_functional_call [Rotation (PyInt 0)] = Inr Map.empty \<and>
   get_text_functional_call [Rotation (PyInt 90), Rotation (PyInt 180)]
     = Inr [''rotate_angle'' \<mapsto> PyInt 180] \<and>
   get_text_functional_call [Timeout (PyInt 30), Timeout (PyInt 60)]
     = Inr [''timeout'' \<mapsto> PyInt 60] \<and>
   get_text_chains_call [Rotation (PyInt 90), Rotation (PyInt 0)]
     = Inr [''rotate_angle'' \<mapsto> PyInt 90] \<and>
   get_text_chains_call [Rotation (PyInt 0)] = Inr Map.empty \<and>
   get_text_chains_call [Timeout (PyInt 30), Timeout (PyInt 60)]
     = Inr [''timeout'' \<mapsto> PyInt 60]"
  by (simp add: get_text_functional_call_def get_text_functional_def WithRotation_def
      WithTimeout_def get_text_chains_call_def get_text_chains_def chains_build_def
      chains_rotate_def chains_timeout_def Options_init_def hdr_defs)

subsection \<open>C2: child settings without OCR\<close>

text \<open>
  C2 states that with \<open>with_ocr\<close> false the header map holds none of
  \<open>with_bounding_boxes\<close>, \<open>inline_ocr\<close>, \<open>ocr_with_text\<close>, \<open>detect_tables\<close>.
  In 2.extend, with \<open>with_ocr\<close> at its default \<open>False\<close> and
  \<open>with_bounding_boxes=True\<close>, the map holds \<open>with_bounding_boxes: True\<close>.
\<close>

theorem extend_child_without_ocr:
  "extend_with_ocr (extend_defaults\<lparr>extend_with_bounding_boxes := True\<rparr>) = False \<and>
   get_text_extend (extend_defaults\<lparr>extend_with_bounding_boxes := True\<rparr>)
     = Inr [''with_bounding_boxes'' \<mapsto> PyBool True, ''as_plain_text'' \<mapsto> PyBool True,
            ''SkipOCR'' \<mapsto> PyStr ''true'', ''Accept'' \<mapsto> PyStr ''text/plain'']"
  by (simp add: get_text_extend_def extend_defaults_def hdr_defs)

text \<open>
  C2 as amended: in 3.config, for every config with \<open>with_ocr\<close> false the header
  map holds none of the four child keys; in 2.extend each of the four child keys is
  present exactly when its own flag is true, whatever \<open>with_ocr\<close> is.
\<close>

theorem child_suppression_by_style:
  "(\<not> with_ocr c \<longrightarrow>
      to_headers c ''with_bounding_boxes'' = None \<and> to_headers c ''inline_ocr'' = None \<and>
      to_headers c ''ocr_with_text'' = None \<and> to_headers c ''detect_tables'' = None) \<and>
   (get_text_extend kw = Inr h \<longrightarrow>
      h ''with_bounding_boxes''
        = (if extend_with_bounding_boxes kw then Some (PyBool True) else None) \<and>
      h ''inline_ocr'' = (if extend_inline_ocr kw then Some (PyStr ''true'') else None) \<and>
      h ''ocr_with_text'' = (if extend_ocr_with_text kw then Some (PyBool True) else None) \<and>
      h ''detect_tables'' = (if extend_detect_tables kw then Some (PyBool True) else None))"
proof (intro conjI impI)
  assume "\<not> with_ocr c"
  then show "to_headers c ''with_bounding_boxes'' = None" "to_headers c ''inline_ocr'' = None"
    "to_headers c ''detect_tables'' = None"
    by (simp_all add: to_headers_lookup)
  show "to_headers c ''ocr_with_text'' = None" by (rule to_headers_lookup)
next
  assume e: "get_text_extend kw = Inr h"
  show "h ''with_bounding_boxes''
        = (if extend_with_bounding_boxes kw then Some (PyBool True) else None)"
    "h ''inline_ocr'' = (if extend_inline_ocr kw then Some (PyStr ''true'') else None)"
    "h ''ocr_with_text'' = (if extend_ocr_with_text kw then Some (PyBool True) else None)"
    "h ''detect_tables'' = (if extend_detect_tables kw then Some (PyBool True) else None)"
    by (rule get_text_extend_lookup [OF e])+
qed

text \<open>
  C2, witness: a 3.config model with two child flags set and OCR off, and a 2.extend
  call with \<open>inline_ocr=True\<close> and OCR off.
\<close>

theorem child_suppression_by_style_witness:
  "\<not> with_ocr (TextExtractionConfig_defaults\<lparr>with_bounding_boxes := True, detect_tables := True\<rparr>) \<and>
   to_headers (TextExtractionConfig_defaults\<lparr>with_bounding_boxes := True, detect_tables := True\<rparr>)
     ''with_bounding_boxes'' = None \<and>
   get_text_extend (extend_defaults\<lparr>extend_inline_ocr := True\<rparr>)
     = Inr [''as_plain_text'' \<mapsto> PyBool True, ''SkipOCR'' \<mapsto> PyStr ''true'',
            ''inline_ocr'' \<mapsto> PyStr ''true'', ''Accept'' \<mapsto> PyStr ''text/plain''] \<and>
   [''as_plain_text'' \<mapsto> PyBool True, ''SkipOCR'' \<mapsto> PyStr ''true'',
    ''inline_ocr'' \<mapsto> PyStr ''true'', ''Accept'' \<mapsto> PyStr ''text/plain''] ''inline_ocr''
     = (if extend_inline_ocr (extend_defaults\<lparr>extend_inline_ocr := True\<rparr>)
        then Some (PyStr ''true'') else None)"
proof -
  let ?c = "TextExtractionConfig_defaults\<lparr>with_bounding_boxes := True, detect_tables := True\<rparr>"
  let ?kw = "extend_defaults\<lparr>extend_inline_ocr := True\<rparr>"
  let ?h = "[''as_plain_text'' \<mapsto> PyBool True, ''SkipOCR'' \<mapsto> PyStr ''true'',
    ''inline_ocr'' \<mapsto> PyStr ''true'', ''Accept'' \<mapsto> PyStr ''text/plain'']"
  have a: "\<not> with_ocr ?c" by (simp add: TextExtractionConfig_defaults_def)
  have b: "get_text_extend ?kw = Inr ?h"
    by (simp add: get_text_extend_def extend_defaults_def hdr_defs)
  note t = child_suppression_by_style [of ?c ?kw ?h]
  from t a have 1: "to_headers ?c ''with_bounding_boxes'' = None" by blast
  from t b have 2: "?h ''inline_ocr'' = (if extend_inline_ocr ?kw then Some (PyStr ''true'') else None)"
    by blast
  show ?thesis by (intro conjI) (rule a 1 b 2)+
qed

subsection \<open>C3: settings at their default\<close>

text \<open>
  C3 states that the output holds no setting whose value is the setting's default, in
  particular not \<open>as_plain_text=true\<close> and \<open>with_ocr=false\<close>. In 2.extend with
  every argument at its default, the map holds \<open>as_plain_text: True\<close>, its
  \<open>Accept\<close> header, and the \<open>SkipOCR\<close> header of \<open>with_ocr=False\<close>.
\<close>

theorem extend_defaults_not_omitted:
  "extend_as_plain_text extend_defaults = True \<and> extend_with_ocr extend_defaults = False \<and>
   get_text_extend extend_defaults
     = Inr [''as_plain_text'' \<mapsto> PyBool True, ''SkipOCR'' \<mapsto> PyStr ''true'',
            ''Accept'' \<mapsto> PyStr ''text/plain'']"
  by (simp add: get_text_extend_def extend_defaults_def hdr_defs)

text \<open>
  C3 as amended: for every valid config, 2.extend and 3.config leave \<open>timeout\<close> out
  when it is absent, \<open>rotate_angle\<close> out when it is 0, and each child flag out when it
  is false, and 3.config leaves \<open>with_ocr\<close> out when it is false; in 2.extend the
  defaults \<open>as_plain_text=True\<close> and \<open>with_ocr=False\<close> are not left out: they give
  \<open>as_plain_text: True\<close>, \<open>Accept: "text/plain"\<close> and \<open>SkipOCR: "true"\<close>.
\<close>

theorem default_omission_by_style:
  "(get_text_extend kw = Inr h \<longrightarrow>
      (extend_timeout kw = None \<longrightarrow> h ''timeout'' = None) \<and>
      (py_eq_int (extend_rotate_angle kw) 0 \<longrightarrow> h ''rotate_angle'' = None) \<and>
      (\<not> extend_with_bounding_boxes kw \<longrightarrow> h ''with_bounding_boxes'' = None) \<and>
      (\<not> extend_inline_ocr kw \<longrightarrow> h ''inline_ocr'' = None) \<and>
      (\<not> extend_ocr_with_text kw \<longrightarrow> h ''ocr_with_text'' = None) \<and>
      (\<not> extend_detect_tables kw \<longrightarrow> h ''detect_tables'' = None) \<and>
      (extend_as_plain_text kw \<longrightarrow>
         h ''as_plain_text'' = Some (PyBool True) \<and> h ''Accept'' = Some (PyStr ''text/plain'')) \<and>
      (\<not> extend_with_ocr kw \<longrightarrow> h ''SkipOCR'' = Some (PyStr ''true''))) \<and>
   (timeout c = None \<longrightarrow> to_headers c ''timeout'' = None) \<and>
   (rotate_angle c = 0 \<longrightarrow> to_headers c ''rotate_angle'' = None) \<and>
   (\<not> with_ocr c \<longrightarrow> to_headers c ''with_ocr'' = None) \<and>
   (\<not> with_bounding_boxes c \<longrightarrow> to_headers c ''with_bounding_boxes'' = None) \<and>
   (\<not> inline_ocr c \<longrightarrow> to_headers c ''inline_ocr'' = None) \<and>
   (\<not> detect_tables c \<longrightarrow> to_headers c ''detect_tables'' = None)"
proof (intro conjI impI)
  assume e: "get_text_extend kw = Inr h"
  note l = get_text_extend_lookup [OF e]
  show "h ''timeout'' = None" if "extend_timeout kw = None"
    using that l(1) by simp
  show "h ''rotate_angle'' = None" if "py_eq_int (extend_rotate_angle kw) 0"
    using that l(2) by simp
  show "h ''with_bounding_boxes'' = None" if "\<not> extend_with_bounding_boxes kw"
    using that l(4) by simp
  show "h ''inline_ocr'' = None" if "\<not> extend_inline_ocr kw"
    using that l(8) by simp
  show "h ''ocr_with_text'' = None" if "\<not> extend_ocr_with_text kw"
    using that l(5) by simp
  show "h ''detect_tables'' = None" if "\<not> extend_detect_tables kw"
    using that l(3) by simp
  show "h ''as_plain_text'' = Some (PyBool True)" if "extend_as_plain_text kw"
    using that l(6) by simp
  show "h ''Accept'' = Some (PyStr ''text/plain'')" if "extend_as_plain_text kw"
    using that l(9) by simp
  show "h ''SkipOCR'' = Some (PyStr ''true'')" if "\<not> extend_with_ocr kw"
    using that l(7) by simp
next
  show "to_headers c ''timeout'' = None" if "timeout c = None"
    using that by (simp add: to_headers_lookup)
  show "to_headers c ''rotate_angle'' = None" if "rotate_angle c = 0"
    using that by (simp add: to_headers_lookup)
  show "to_headers c ''with_ocr'' = None" if "\<not> with_ocr c"
    using that by (simp add: to_headers_lookup)
  show "to_headers c ''with_bounding_boxes'' = None" if "\<not> with_bounding_boxes c"
    using that by (simp add: to_headers_lookup)
  show "to_headers c ''inline_ocr'' = None" if "\<not> inline_ocr c"
    using that by (simp add: to_headers_lookup)
  show "to_headers c ''detect_tables'' = None" if "\<not> detect_tables c"
    using that by (simp add: to_headers_lookup)
qed

text \<open>C3, witness: both styles with every setting at its default.\<close>

theorem default_omission_by_style_witness:
  "get_text_extend extend_defaults
     = Inr [''as_plain_text'' \<mapsto> PyBool True, ''SkipOCR'' \<mapsto> PyStr ''true'',
            ''Accept'' \<mapsto> PyStr ''text/plain''] \<and>
   extend_timeout extend_defaults = None \<and>
   py_eq_int (extend_rotate_angle extend_defaults) 0 \<and>
   \<not> extend_with_bounding_boxes extend_defaults \<and>
   \<not> extend_inline_ocr extend_defaults \<and>
   \<not> extend_ocr_with_text extend_defaults \<and>
   \<not> extend_detect_tables extend_defaults \<and>
   extend_as_plain_text extend_defaults \<and>
   \<not> extend_with_ocr extend_defaults \<and>
   timeout TextExtractionConfig_defaults = None \<and>
   rotate_angle TextExtractionConfig_defaults = 0 \<and>
   \<not> with_ocr TextExtractionConfig_defaults \<and>
   \<not> with_bounding_boxes TextExtractionConfig_defaults \<and>
   \<not> inline_ocr TextExtractionConfig_defaults \<and>
   \<not> detect_tables TextExtractionConfig_defaults \<and>
   [''as_plain_text'' \<mapsto> PyBool True, ''SkipOCR'' \<mapsto> PyStr ''true'',
    ''Accept'' \<mapsto> PyStr ''text/plain''] ''timeout'' = None \<and>
   [''as_plain_text'' \<mapsto> PyBool True, ''SkipOCR'' \<mapsto> PyStr ''true'',
    ''Accept'' \<mapsto> PyStr ''text/plain''] ''SkipOCR'' = Some (PyStr ''true'') \<and>
   to_headers TextExtractionConfig_defaults ''timeout'' = None \<and>
   to_headers TextExtractionConfig_defaults ''rotate_angle'' = None \<and>
   to_headers TextExtractionConfig_defaults ''with_ocr'' = None \<and>
   to_headers TextExtractionConfig_defaults ''with_bounding_boxes'' = None \<and>
   to_headers TextExtractionConfig_defaults ''inline_ocr'' = None \<and>
   to_headers TextExtractionConfig_defaults ''detect_tables'' = None"
proof -
  let ?h = "[''as_plain_text'' \<mapsto> PyBool True, ''SkipOCR'' \<mapsto> PyStr ''true'',
            ''Accept'' \<mapsto> PyStr ''text/plain'']"
  have e: "get_text_extend extend_defaults = Inr ?h"
    by (simp add: get_text_extend_def extend_defaults_def hdr_defs)
  have k: "extend_timeout extend_defaults = None"
    "py_eq_int (extend_rotate_angle extend_defaults) 0"
    "\<not> extend_with_bounding_boxes extend_defaults"
    "\<not> extend_inline_ocr extend_defaults"
    "\<not> extend_ocr_with_text extend_defaults"
    "\<not> extend_detect_tables extend_defaults"
    "extend_as_plain_text extend_defaults"
    "\<not> extend_with_ocr extend_defaults"
    by (simp_all add: extend_defaults_def py_eq_int_def)
  have d: "timeout TextExtractionConfig_defaults = None"
    "rotate_angle TextExtractionConfig_defaults = 0"
    "\<not> with_ocr TextExtractionConfig_defaults"
    "\<not> with_bounding_boxes TextExtractionConfig_defaults"
    "\<not> inline_ocr TextExtractionConfig_defaults"
    "\<not> detect_tables TextExtractionConfig_defaults"
    by (simp_all add: TextExtractionConfig_defaults_def)
  note t = default_omission_by_style [of extend_defaults ?h TextExtractionConfig_defaults]
  from t d have r: "to_headers TextExtractionConfig_defaults ''timeout'' = None"
    "to_headers TextExtractionConfig_defaults ''rotate_angle'' = None"
    "to_headers TextExtractionConfig_defaults ''with_ocr'' = None"
    "to_headers TextExtractionConfig_defaults ''with_bounding_boxes'' = None"
    "to_headers TextExtractionConfig_defaults ''inline_ocr'' = None"
    "to_headers TextExtractionConfig_defaults ''detect_tables'' = None"
    by blast+
  from t e k have x: "?h ''timeout'' = None" "?h ''SkipOCR'' = Some (PyStr ''true'')"
    by blast+
  show ?thesis by (intro conjI) (rule e k d r x)+
qed

subsection \<open>C4: the headers of the OCR switch\<close>

text \<open>
  C4 states that \<open>SkipOCR: "true"\<close> is present iff \<open>with_ocr\<close> is false and
  \<open>with_ocr: True\<close> is present iff it is true, and that OCR on with nothing else and
  \<open>as_plain_text\<close> off gives exactly \<open>{with_ocr: True}\<close>. 3.config with OCR off
  has no \<open>SkipOCR\<close>, and 2.extend with OCR on and \<open>as_plain_text\<close> off gives the
  empty map.
\<close>

theorem ocr_header_mismatch:
  "with_ocr TextExtractionConfig_defaults = False \<and>
   to_headers TextExtractionConfig_defaults ''SkipOCR'' = None \<and>
   extend_with_ocr (extend_defaults\<lparr>extend_with_ocr := True, extend_as_plain_text := False\<rparr>)
     = True \<and>
   get_text_extend (extend_defaults\<lparr>extend_with_ocr := True, extend_as_plain_text := False\<rparr>)
     = Inr Map.empty"
  by (simp add: TextExtractionConfig_defaults_def to_headers_lookup get_text_extend_def
      extend_defaults_def hdr_defs)

lemma to_headers_only_ocr:
  assumes "with_ocr c" "\<not> as_plain_text c" "\<not> with_bounding_boxes c" "\<not> inline_ocr c"
    "\<not> detect_tables c" "timeout c = None" "rotate_angle c = 0"
  shows "to_headers c = [''with_ocr'' \<mapsto> PyBool True]"
  using assms by (simp add: to_headers_def Let_def set_if_def)

text \<open>
  C4 as amended: in 1.simple and 2.extend \<open>SkipOCR: "true"\<close> is present iff
  \<open>with_ocr\<close> is false, and there is never a \<open>with_ocr\<close> entry; in 3.config
  \<open>with_ocr: True\<close> is present iff \<open>with_ocr\<close> is true, and there is never a
  \<open>SkipOCR\<close> entry; a 3.config model with OCR on, no sub-option, no timeout, no
  rotation and \<open>as_plain_text\<close> off gives exactly \<open>{with_ocr: True}\<close>.
\<close>

theorem ocr_headers_by_style:
  "get_text_simple skw ''SkipOCR'' = (if simple_with_ocr skw then None else Some (PyStr ''true'')) \<and>
   get_text_simple skw ''with_ocr'' = None \<and>
   (get_text_extend kw = Inr h \<longrightarrow>
      h ''SkipOCR'' = (if extend_with_ocr kw then None else Some (PyStr ''true'')) \<and>
      h ''with_ocr'' = None) \<and>
   to_headers c ''with_ocr'' = (if with_ocr c then Some (PyBool True) else None) \<and>
   to_headers c ''SkipOCR'' = None \<and>
   (with_ocr c \<and> \<not> as_plain_text c \<and> \<not> with_bounding_boxes c \<and> \<not> inline_ocr c \<and>
    \<not> detect_tables c \<and> timeout c = None \<and> rotate_angle c = 0 \<longrightarrow>
      to_headers c = [''with_ocr'' \<mapsto> PyBool True])"
proof (intro conjI impI)
  show "get_text_simple skw ''SkipOCR'' = (if simple_with_ocr skw then None else Some (PyStr ''true''))"
    "get_text_simple skw ''with_ocr'' = None"
    by (simp_all add: get_text_simple_def Let_def set_if_apply)
  show "to_headers c ''with_ocr'' = (if with_ocr c then Some (PyBool True) else None)"
    "to_headers c ''SkipOCR'' = None"
    by (rule to_headers_lookup)+
next
  assume e: "get_text_extend kw = Inr h"
  show "h ''SkipOCR'' = (if extend_with_ocr kw then None else Some (PyStr ''true''))"
    "h ''with_ocr'' = None"
    by (rule get_text_extend_lookup [OF e])+
next
  assume "with_ocr c \<and> \<not> as_plain_text c \<and> \<not> with_bounding_boxes c \<and> \<not> inline_ocr c \<and>
    \<not> detect_tables c \<and> timeout c = None \<and> rotate_angle c = 0"
  then show "to_headers c = [''with_ocr'' \<mapsto> PyBool True]"
    by (intro to_headers_only_ocr) simp_all
qed

text \<open>
  C4, witness: 2.extend with its defaults, and the 3.config model with OCR on and
  \<open>as_plain_text\<close> off.
\<close>

theorem ocr_headers_by_style_witness:
  "get_text_extend extend_defaults
     = Inr [''as_plain_text'' \<mapsto> PyBool True, ''SkipOCR'' \<mapsto> PyStr ''true'',
            ''Accept'' \<mapsto> PyStr ''text/plain''] \<and>
   [''as_plain_text'' \<mapsto> PyBool True, ''SkipOCR'' \<mapsto> PyStr ''true'',
    ''Accept'' \<mapsto> PyStr ''text/plain''] ''SkipOCR''
     = (if extend_with_ocr extend_defaults then None else Some (PyStr ''true'')) \<and>
   with_ocr (TextExtractionConfig_defaults\<lparr>with_ocr := True, as_plain_text := False\<rparr>) \<and>
   \<not> as_plain_text (TextExtractionConfig_defaults\<lparr>with_ocr := True, as_plain_text := False\<rparr>) \<and>
   to_headers (TextExtractionConfig_defaults\<lparr>with_ocr := True, as_plain_text := False\<rparr>)
     = [''with_ocr'' \<mapsto> PyBool True]"
proof -
  let ?h = "[''as_plain_text'' \<mapsto> PyBool True, ''SkipOCR'' \<mapsto> PyStr ''true'',
            ''Accept'' \<mapsto> PyStr ''text/plain'']"
  let ?c = "TextExtractionConfig_defaults\<lparr>with_ocr := True, as_plain_text := False\<rparr>"
  have e: "get_text_extend extend_defaults = Inr ?h"
    by (simp add: get_text_extend_def extend_defaults_def hdr_defs)
  have d: "with_ocr ?c" "\<not> as_plain_text ?c"
    by (simp_all add: TextExtractionConfig_defaults_def)
  have d': "with_ocr ?c \<and> \<not> as_plain_text ?c \<and> \<not> with_bounding_boxes ?c \<and> \<not> inline_ocr ?c \<and>
    \<not> detect_tables ?c \<and> timeout ?c = None \<and> rotate_angle ?c = 0"
    by (simp add: TextExtractionConfig_defaults_def)
  note t = ocr_headers_by_style [of simple_defaults extend_defaults ?h ?c]
  from t e have 1: "?h ''SkipOCR''
     = (if extend_with_ocr extend_defaults then None else Some (PyStr ''true''))"
    by blast
  from t d' have 2: "to_headers ?c = [''with_ocr'' \<mapsto> PyBool True]"
    by blast
  show ?thesis by (intro conjI) (rule e 1 d 2)+
qed

subsection \<open>C6: validation of the timeout\<close>

lemma WithTimeout_ok:
  "timeout_ok (Some t) \<Longrightarrow> WithTimeout t = Inr (\<lambda>opt. opt(''timeout'' \<mapsto> t))"
  by (simp add: WithTimeout_def timeout_ok_def split: option.splits)

lemma WithTimeout_bad: "\<not> timeout_ok (Some t) \<Longrightarrow> isl (WithTimeout t)"
  by (simp add: WithTimeout_def timeout_ok_def split: option.splits)

lemma chains_timeout_ok:
  "timeout_ok (Some t) \<Longrightarrow>
     chains_timeout t self = Inr (self\<lparr>options_dict := (options_dict self)(''timeout'' \<mapsto> t)\<rparr>)"
  by (simp add: chains_timeout_def timeout_ok_def split: option.splits)

lemma chains_timeout_bad: "\<not> timeout_ok (Some t) \<Longrightarrow> isl (chains_timeout t self)"
  by (simp add: chains_timeout_def timeout_ok_def split: option.splits)

lemma setting_ok_Timeout: "setting_ok (Timeout t) = timeout_ok (Some t)"
  by (simp add: timeout_ok_def)

lemma bad_member_not_all_ok: "s \<in> set ss \<Longrightarrow> \<not> setting_ok s \<Longrightarrow> \<not> list_all setting_ok ss"
  by (auto simp: list_all_iff)

lemma init_isl_iff:
  "isl (TextExtractionConfig_init c) \<longleftrightarrow>
     (\<exists>n. timeout c = Some n \<and> n \<le> 0) \<or> rotate_angle c \<notin> {0, 90, 180, 270}"
  by (auto simp: TextExtractionConfig_init_def validate_timeout_def validate_rotate_angle_def
      split: option.splits)

lemma init_ok:
  "\<not> isl (TextExtractionConfig_init c) \<Longrightarrow> TextExtractionConfig_init c = Inr c"
  by (auto simp: TextExtractionConfig_init_def validate_timeout_def validate_rotate_angle_def
      split: option.splits if_splits)

lemma timeout_ok_iff: "timeout_ok (Some t) \<longleftrightarrow> (\<exists>m. as_int t = Some m \<and> 0 < m)"
  by (simp add: timeout_ok_def split: option.splits)

lemma timeout_bad_iff:
  "\<not> timeout_ok (Some t) \<longleftrightarrow> as_int t = None \<or> (\<exists>m. as_int t = Some m \<and> m \<le> 0)"
  by (auto simp: timeout_ok_def split: option.splits)

lemma init_raw_isl_iff:
  "isl (TextExtractionConfig_init_raw to_int c (Some t)) \<longleftrightarrow>
     to_int t = None \<or> (\<exists>n. to_int t = Some n \<and> n \<le> 0) \<or> rotate_angle c \<notin> {0, 90, 180, 270}"
  by (auto simp: TextExtractionConfig_init_raw_def init_isl_iff split: option.splits)

lemma init_raw_Some:
  "to_int t = Some n \<Longrightarrow>
     TextExtractionConfig_init_raw to_int c (Some t)
       = TextExtractionConfig_init (c\<lparr>timeout := Some n\<rparr>)"
  by (simp add: TextExtractionConfig_init_raw_def)

text \<open>
  C6 states that every timeout that is not an integer, or is not above 0, makes the
  build fail. In 3.config the class has no type check of its own: the string \<open>"30"\<close>
  is not an integer, the conversion \<open>lax_int\<close> reads it as 30, the validator accepts
  30, and the header map binds \<open>timeout\<close> to 30.
\<close>

theorem config_accepts_numeric_string:
  "as_int (PyStr ''30'') = None \<and>
   TextExtractionConfig_init_raw lax_int TextExtractionConfig_defaults (Some (PyStr ''30''))
     = Inr (TextExtractionConfig_defaults\<lparr>timeout := Some 30\<rparr>) \<and>
   to_headers (TextExtractionConfig_defaults\<lparr>timeout := Some 30\<rparr>) ''timeout''
     = Some (PyInt 30)"
  by (simp add: TextExtractionConfig_init_raw_def digit_value_def TextExtractionConfig_init_def
      validate_timeout_def validate_rotate_angle_def TextExtractionConfig_defaults_def
      to_headers_lookup)

text \<open>
  C6 as amended: in 2.extend, the functional options and the fluent builder, a timeout
  that is not an integer, or is an integer not above 0, makes the build fail:
  \<open>get_text\<close> of 2.extend, \<open>WithTimeout\<close>, the builder's \<open>timeout\<close>, and every
  call or chain that contains such a timeout raise. In 3.config the build fails exactly
  when the conversion to the declared integer type refuses the value or yields an
  integer not above 0; a non-integer that the conversion accepts is not refused. In
  every style a positive integer timeout is accepted and the header map binds
  \<open>timeout\<close> to that integer; in 2.extend and 3.config, where the rotation is checked
  in the same step, the build succeeds when the rotation is legal.
\<close>

theorem timeout_validation:
  "(as_int t = None \<or> (\<exists>m. as_int t = Some m \<and> m \<le> 0) \<longrightarrow>
      isl (get_text_extend (kw\<lparr>extend_timeout := Some t\<rparr>)) \<and>
      isl (WithTimeout t) \<and> isl (chains_timeout t self) \<and>
      (Timeout t \<in> set ss \<longrightarrow>
         isl (get_text_functional_call ss) \<and> isl (get_text_chains_call ss))) \<and>
   (n \<le> 0 \<longrightarrow> isl (TextExtractionConfig_init (c\<lparr>timeout := Some n\<rparr>))) \<and>
   (as_int u = Some k \<and> 0 < k \<longrightarrow>
      (py_in (extend_rotate_angle kw) [0, 90, 180, 270] \<longrightarrow>
         (\<exists>h. get_text_extend (kw\<lparr>extend_timeout := Some u\<rparr>) = Inr h \<and>
              h ''timeout'' = Some u)) \<and>
      (\<exists>f. WithTimeout u = Inr f \<and> (\<forall>opt. f opt ''timeout'' = Some u)) \<and>
      get_text_functional_call [Timeout u] = Inr [''timeout'' \<mapsto> u] \<and>
      (\<exists>self'. chains_timeout u self = Inr self' \<and> chains_build self' ''timeout'' = Some u) \<and>
      get_text_chains_call [Timeout u] = Inr [''timeout'' \<mapsto> u]) \<and>
   (0 < k \<and> rotate_angle c \<in> {0, 90, 180, 270} \<longrightarrow>
      (\<exists>c'. TextExtractionConfig_init (c\<lparr>timeout := Some k\<rparr>) = Inr c' \<and>
            to_headers c' ''timeout'' = Some (PyInt k))) \<and>
   (to_int v = None \<or> (\<exists>m. to_int v = Some m \<and> m \<le> 0) \<longrightarrow>
      isl (TextExtractionConfig_init_raw to_int c (Some v))) \<and>
   (to_int w = Some j \<and> 0 < j \<and> rotate_angle c \<in> {0, 90, 180, 270} \<longrightarrow>
      (\<exists>c'. TextExtractionConfig_init_raw to_int c (Some w) = Inr c' \<and>
            to_headers c' ''timeout'' = Some (PyInt j)))"
proof (intro conjI impI)
  assume "as_int t = None \<or> (\<exists>m. as_int t = Some m \<and> m \<le> 0)"
  then have bad: "\<not> timeout_ok (Some t)" by (simp only: timeout_bad_iff)
  then show "isl (get_text_extend (kw\<lparr>extend_timeout := Some t\<rparr>))"
    by (simp add: get_text_extend_isl_iff)
  from bad show "isl (WithTimeout t)" by (rule WithTimeout_bad)
  from bad show "isl (chains_timeout t self)" by (rule chains_timeout_bad)
  from bad have nok: "\<not> setting_ok (Timeout t)" by (simp add: timeout_ok_def)
  {
    assume "Timeout t \<in> set ss"
    then have "\<not> list_all setting_ok ss" using nok by (rule bad_member_not_all_ok)
    then show "isl (get_text_functional_call ss)" "isl (get_text_chains_call ss)"
      by (rule get_text_functional_call_bad get_text_chains_call_bad)+
  }
next
  assume "n \<le> 0"
  then show "isl (TextExtractionConfig_init (c\<lparr>timeout := Some n\<rparr>))"
    by (simp add: init_isl_iff)
next
  assume "as_int u = Some k \<and> 0 < k"
  then have ok: "timeout_ok (Some u)" by (simp add: timeout_ok_iff)
  {
    assume r: "py_in (extend_rotate_angle kw) [0, 90, 180, 270]"
    have "\<not> isl (get_text_extend (kw\<lparr>extend_timeout := Some u\<rparr>))"
      using ok r by (simp add: get_text_extend_isl_iff)
    then obtain h where h: "get_text_extend (kw\<lparr>extend_timeout := Some u\<rparr>) = Inr h"
      by (cases "get_text_extend (kw\<lparr>extend_timeout := Some u\<rparr>)") simp_all
    from get_text_extend_lookup(1) [OF h] have "h ''timeout'' = Some u" by simp
    with h show "\<exists>h. get_text_extend (kw\<lparr>extend_timeout := Some u\<rparr>) = Inr h \<and>
              h ''timeout'' = Some u" by blast
  }
  show "\<exists>f. WithTimeout u = Inr f \<and> (\<forall>opt. f opt ''timeout'' = Some u)"
    by (rule exI, rule conjI, rule WithTimeout_ok [OF ok]) simp
  show "get_text_functional_call [Timeout u] = Inr [''timeout'' \<mapsto> u]"
    by (simp add: get_text_functional_call_def get_text_functional_def WithTimeout_ok [OF ok])
  show "\<exists>self'. chains_timeout u self = Inr self' \<and> chains_build self' ''timeout'' = Some u"
    by (rule exI, rule conjI, rule chains_timeout_ok [OF ok]) (simp add: chains_build_def)
  show "get_text_chains_call [Timeout u] = Inr [''timeout'' \<mapsto> u]"
    by (simp add: get_text_chains_call_def get_text_chains_def chains_build_def
        Options_init_def chains_timeout_ok [OF ok])
next
  assume a: "0 < k \<and> rotate_angle c \<in> {0, 90, 180, 270}"
  then have "\<not> isl (TextExtractionConfig_init (c\<lparr>timeout := Some k\<rparr>))"
    by (simp add: init_isl_iff)
  then have "TextExtractionConfig_init (c\<lparr>timeout := Some k\<rparr>) = Inr (c\<lparr>timeout := Some k\<rparr>)"
    by (rule init_ok)
  moreover have "to_headers (c\<lparr>timeout := Some k\<rparr>) ''timeout'' = Some (PyInt k)"
    by (simp add: to_headers_lookup)
  ultimately show "\<exists>c'. TextExtractionConfig_init (c\<lparr>timeout := Some k\<rparr>) = Inr c' \<and>
            to_headers c' ''timeout'' = Some (PyInt k)" by blast
next
  assume "to_int v = None \<or> (\<exists>m. to_int v = Some m \<and> m \<le> 0)"
  then show "isl (TextExtractionConfig_init_raw to_int c (Some v))"
    unfolding init_raw_isl_iff by blast
next
  assume a: "to_int w = Some j \<and> 0 < j \<and> rotate_angle c \<in> {0, 90, 180, 270}"
  then have raw: "TextExtractionConfig_init_raw to_int c (Some w)
       = TextExtractionConfig_init (c\<lparr>timeout := Some j\<rparr>)"
    by (intro init_raw_Some) simp
  from a have "\<not> isl (TextExtractionConfig_init (c\<lparr>timeout := Some j\<rparr>))"
    by (simp add: init_isl_iff)
  then have "TextExtractionConfig_init (c\<lparr>timeout := Some j\<rparr>) = Inr (c\<lparr>timeout := Some j\<rparr>)"
    by (rule init_ok)
  with raw have "TextExtractionConfig_init_raw to_int c (Some w) = Inr (c\<lparr>timeout := Some j\<rparr>)"
    by (rule trans)
  moreover have "to_headers (c\<lparr>timeout := Some j\<rparr>) ''timeout'' = Some (PyInt j)"
    by (simp add: to_headers_lookup)
  ultimately show "\<exists>c'. TextExtractionConfig_init_raw to_int c (Some w) = Inr c' \<and>
            to_headers c' ''timeout'' = Some (PyInt j)" by blast
qed

text \<open>
  C6, witness: the string \<open>"30"\<close> and the integer 0 are refused by 2.extend, the
  options and the builder, and the integer 30 is accepted; in 3.config a string that
  the conversion refuses and the integer 0 are refused, and the integer 30 is accepted.
\<close>

theorem timeout_validation_witness:
  "as_int (PyStr ''30'') = None \<and>
   isl (get_text_extend (extend_defaults\<lparr>extend_timeout := Some (PyStr ''30'')\<rparr>)) \<and>
   isl (WithTimeout (PyStr ''30'')) \<and>
   as_int (PyInt 0) = Some 0 \<and> (0::int) \<le> 0 \<and>
   isl (chains_timeout (PyInt 0) Options_init) \<and>
   Timeout (PyInt 0) \<in> set [OCR WithOCR_defaults, Timeout (PyInt 0)] \<and>
   isl (get_text_functional_call [OCR WithOCR_defaults, Timeout (PyInt 0)]) \<and>
   isl (TextExtractionConfig_init (TextExtractionConfig_defaults\<lparr>timeout := Some 0\<rparr>)) \<and>
   as_int (PyInt 30) = Some 30 \<and> (0::int) < 30 \<and>
   py_in (extend_rotate_angle extend_defaults) [0, 90, 180, 270] \<and>
   (\<exists>h. get_text_extend (extend_defaults\<lparr>extend_timeout := Some (PyInt 30)\<rparr>) = Inr h \<and>
        h ''timeout'' = Some (PyInt 30)) \<and>
   get_text_functional_call [Timeout (PyInt 30)] = Inr [''timeout'' \<mapsto> PyInt 30] \<and>
   rotate_angle TextExtractionConfig_defaults \<in> {0, 90, 180, 270} \<and>
   (\<exists>c'. TextExtractionConfig_init (TextExtractionConfig_defaults\<lparr>timeout := Some 30\<rparr>) = Inr c' \<and>
         to_headers c' ''timeout'' = Some (PyInt 30)) \<and>
   lax_int (PyStr ''soon'') = None \<and>
   isl (TextExtractionConfig_init_raw lax_int TextExtractionConfig_defaults (Some (PyStr ''soon''))) \<and>
   lax_int (PyInt 30) = Some 30 \<and>
   (\<exists>c'. TextExtractionConfig_init_raw lax_int TextExtractionConfig_defaults (Some (PyInt 30))
           = Inr c' \<and>
         to_headers c' ''timeout'' = Some (PyInt 30))"
proof -
  have s: "as_int (PyStr ''30'') = None" by simp
  have z: "as_int (PyInt 0) = Some 0" "(0::int) \<le> 0" by simp_all
  have m: "Timeout (PyInt 0) \<in> set [OCR WithOCR_defaults, Timeout (PyInt 0)]" by simp
  have g: "as_int (PyInt 30) = Some 30" "(0::int) < 30" by simp_all
  have r: "py_in (extend_rotate_angle extend_defaults) [0, 90, 180, 270]"
    by (simp add: extend_defaults_def py_in_def py_eq_int_def)
  have r': "rotate_angle TextExtractionConfig_defaults \<in> {0, 90, 180, 270}"
    by (simp add: TextExtractionConfig_defaults_def)
  have l: "lax_int (PyStr ''soon'') = None" by (simp add: digit_value_def)
  have l': "lax_int (PyInt 30) = Some 30" by simp
  note t1 = timeout_validation [where t = "PyStr ''30''" and kw = extend_defaults
      and self = Options_init and ss = "[]" and n = 0 and c = TextExtractionConfig_defaults
      and u = "PyInt 30" and k = 30 and to_int = lax_int and v = "PyStr ''soon''"
      and w = "PyInt 30" and j = 30]
  note t2 = timeout_validation [where t = "PyInt 0" and kw = extend_defaults
      and self = Options_init and ss = "[OCR WithOCR_defaults, Timeout (PyInt 0)]" and n = 0
      and c = TextExtractionConfig_defaults and u = "PyInt 30" and k = 30 and to_int = lax_int
      and v = "PyStr ''soon''" and w = "PyInt 30" and j = 30]
  from t1 s have 1: "isl (get_text_extend (extend_defaults\<lparr>extend_timeout := Some (PyStr ''30'')\<rparr>))"
    "isl (WithTimeout (PyStr ''30''))" by blast+
  from t2 z m have 2: "isl (chains_timeout (PyInt 0) Options_init)"
    "isl (get_text_functional_call [OCR WithOCR_defaults, Timeout (PyInt 0)])"
    "isl (TextExtractionConfig_init (TextExtractionConfig_defaults\<lparr>timeout := Some 0\<rparr>))"
    by blast+
  from t1 g r have 3: "\<exists>h. get_text_extend (extend_defaults\<lparr>extend_timeout := Some (PyInt 30)\<rparr>) = Inr h \<and>
        h ''timeout'' = Some (PyInt 30)" by blast
  from t1 g have 4: "get_text_functional_call [Timeout (PyInt 30)] = Inr [''timeout'' \<mapsto> PyInt 30]"
    by blast
  from t1 g r' have 5: "\<exists>c'. TextExtractionConfig_init (TextExtractionConfig_defaults\<lparr>timeout := Some 30\<rparr>) = Inr c' \<and>
         to_headers c' ''timeout'' = Some (PyInt 30)" by blast
  from t1 l have 6: "isl (TextExtractionConfig_init_raw lax_int TextExtractionConfig_defaults
         (Some (PyStr ''soon'')))" by blast
  from t1 l' g(2) r' have 7: "\<exists>c'. TextExtractionConfig_init_raw lax_int TextExtractionConfig_defaults
           (Some (PyInt 30)) = Inr c' \<and>
         to_headers c' ''timeout'' = Some (PyInt 30)" by blast
  show ?thesis by (intro conjI) (rule s z m g r r' l l' 1 2 3 4 5 6 7)+
qed

subsection \<open>C7: validation of the rotation\<close>










end
